theory Spec2Isabelle
  imports Complex_Main
begin

section \<open>Boostly AE commission calculator: the derived values of \<open>src/App.js\<close>\<close>

text \<open>
  The component \<open>CommissionCalculatorApp\<close> keeps eleven pieces of React state and
  derives the payout breakdown from them inside one \<open>useMemo\<close> closure. The closure
  is a pure function of the state and never throws; it is embedded as the total function
  \<open>compute\<close>.
\<close>

subsection \<open>JavaScript numbers\<close>

text \<open>
  A number is a finite value, \<open>Infinity\<close>, \<open>-Infinity\<close> or \<open>NaN\<close>. Finite values are
  kept as reals; what is modelled of the double format is its range: a result whose
  exact value is at least \<open>2 ^ 1024 - 2 ^ 970\<close> in magnitude (the least real that
  round-to-nearest takes to \<open>Infinity\<close>) is infinite, both when a text is parsed and
  after every arithmetic operation. Rounding to 53 bits below that bound, gradual
  underflow and the sign of zero are not modelled.
\<close>

datatype jsnum = Fin real | PInf | NInf | NaN

definition overflow_bound :: real where
  "overflow_bound = 2 ^ 1024 - 2 ^ 970"

definition ranged :: "real \<Rightarrow> jsnum" where
  "ranged x =
     (if overflow_bound \<le> x then PInf
      else if x \<le> - overflow_bound then NInf
      else Fin x)"

fun neg :: "jsnum \<Rightarrow> jsnum" where
  "neg (Fin a) = Fin (- a)"
| "neg PInf = NInf"
| "neg NInf = PInf"
| "neg NaN = NaN"

fun sign_of :: "jsnum \<Rightarrow> real" where
  "sign_of (Fin a) = sgn a"
| "sign_of PInf = 1"
| "sign_of NInf = - 1"
| "sign_of NaN = 0"

definition signed_inf :: "real \<Rightarrow> jsnum" where
  "signed_inf s = (if s = 0 then NaN else if 0 < s then PInf else NInf)"

text \<open>
  The operators \<open>+\<close>, \<open>-\<close>, \<open>*\<close>, \<open>/\<close> and the comparisons of JavaScript.
  \<open>Infinity - Infinity\<close>, \<open>0 * Infinity\<close>, \<open>Infinity / Infinity\<close> and \<open>0 / 0\<close>
  are \<open>NaN\<close>; a non-zero value over zero is infinite; every comparison with \<open>NaN\<close>
  is false.
\<close>

instantiation jsnum :: "{plus, minus, times, inverse, ord}"
begin

fun plus_jsnum :: "jsnum \<Rightarrow> jsnum \<Rightarrow> jsnum" where
  "plus_jsnum (Fin a) (Fin b) = ranged (a + b)"
| "plus_jsnum NaN y = NaN"
| "plus_jsnum x NaN = NaN"
| "plus_jsnum PInf NInf = NaN"
| "plus_jsnum NInf PInf = NaN"
| "plus_jsnum PInf y = PInf"
| "plus_jsnum x PInf = PInf"
| "plus_jsnum NInf y = NInf"
| "plus_jsnum x NInf = NInf"

definition minus_jsnum :: "jsnum \<Rightarrow> jsnum \<Rightarrow> jsnum" where
  "minus_jsnum x y = x + neg y"

fun times_jsnum :: "jsnum \<Rightarrow> jsnum \<Rightarrow> jsnum" where
  "times_jsnum (Fin a) (Fin b) = ranged (a * b)"
| "times_jsnum x y =
     (if x = NaN \<or> y = NaN then NaN else signed_inf (sign_of x * sign_of y))"

fun divide_jsnum :: "jsnum \<Rightarrow> jsnum \<Rightarrow> jsnum" where
  "divide_jsnum (Fin a) (Fin b) = (if b = 0 then signed_inf (sgn a) else ranged (a / b))"
| "divide_jsnum NaN y = NaN"
| "divide_jsnum x NaN = NaN"
| "divide_jsnum (Fin a) y = Fin 0"
| "divide_jsnum x (Fin b) = (if b = 0 then x else signed_inf (sign_of x * sgn b))"
| "divide_jsnum PInf PInf = NaN"
| "divide_jsnum PInf NInf = NaN"
| "divide_jsnum NInf PInf = NaN"
| "divide_jsnum NInf NInf = NaN"

definition inverse_jsnum :: "jsnum \<Rightarrow> jsnum" where
  "inverse_jsnum x = divide (Fin 1) x"

fun less_eq_jsnum :: "jsnum \<Rightarrow> jsnum \<Rightarrow> bool" where
  "less_eq_jsnum (Fin a) (Fin b) = (a \<le> b)"
| "less_eq_jsnum NaN y = False"
| "less_eq_jsnum x NaN = False"
| "less_eq_jsnum NInf y = True"
| "less_eq_jsnum x PInf = True"
| "less_eq_jsnum x y = False"

fun less_jsnum :: "jsnum \<Rightarrow> jsnum \<Rightarrow> bool" where
  "less_jsnum (Fin a) (Fin b) = (a < b)"
| "less_jsnum NaN y = False"
| "less_jsnum x NaN = False"
| "less_jsnum PInf y = False"
| "less_jsnum x NInf = False"
| "less_jsnum x y = True"

instance ..

end

text \<open>\<open>Math.floor\<close>, \<open>Math.max\<close> and \<open>Math.min\<close>; the last two return \<open>NaN\<close> for a \<open>NaN\<close> argument.\<close>

fun Math_floor :: "jsnum \<Rightarrow> jsnum" where
  "Math_floor (Fin a) = Fin (real_of_int \<lfloor>a\<rfloor>)"
| "Math_floor x = x"

definition Math_max :: "jsnum \<Rightarrow> jsnum \<Rightarrow> jsnum" where
  "Math_max x y = (if x = NaN \<or> y = NaN then NaN else if x \<le> y then y else x)"

definition Math_min :: "jsnum \<Rightarrow> jsnum \<Rightarrow> jsnum" where
  "Math_min x y = (if x = NaN \<or> y = NaN then NaN else if x \<le> y then x else y)"

subsection \<open>The state\<close>

text \<open>
  A state variable holds either the number given to \<open>useState\<close> or the text of an input
  field (\<open>e.target.value\<close>). \<open>toNumber\<close> begins with \<open>String(v)\<close>, so a raw value is
  represented by that text: the initial \<open>72000\<close> is \<open>''72000''\<close>.
\<close>

record config =
  quotaARR :: string
  basePayoutAt100 :: string
  bundle20Bonus :: string
  bundle35Bonus :: string

record ae_inputs =
  arrSold :: string
  totalDeals :: string
  bundleCount :: string
  prepaidKicker :: string
  clawbacks :: string
  useOverQuotaBundleShare :: bool
  overQuotaBundleSharePct :: string

text \<open>The object returned by the closure; its field \<open>clawbacks\<close> is the local \<open>cb\<close>.\<close>

record breakdown =
  arr :: jsnum
  quotaArr :: jsnum
  attainment :: jsnum
  basePayout :: jsnum
  bundlePct :: jsnum
  bundleBonus :: jsnum
  overARR :: jsnum
  accelerator :: jsnum
  kicker :: jsnum
  cb :: jsnum
  total :: jsnum

text \<open>The arguments of the \<open>useState\<close> calls.\<close>

definition initial_config :: config where
  "initial_config =
     \<lparr>quotaARR = ''72000'', basePayoutAt100 = ''5833'',
      bundle20Bonus = ''500'', bundle35Bonus = ''1000''\<rparr>"

definition initial_inputs :: ae_inputs where
  "initial_inputs =
     \<lparr>arrSold = ''93600'', totalDeals = ''22'', bundleCount = ''7'',
      prepaidKicker = ''100'', clawbacks = ''0'',
      useOverQuotaBundleShare = False, overQuotaBundleSharePct = ''0''\<rparr>"

subsection \<open>Helpers\<close>

text \<open>
  \<open>String(v).replace(/[^0-9.-]/g, "")\<close> keeps the digits, the dot and the minus sign.
\<close>

definition isDigit :: "char \<Rightarrow> bool" where
  "isDigit c = (c \<in> set ''0123456789'')"

definition kept :: "char \<Rightarrow> bool" where
  "kept c = (isDigit c \<or> c = CHR ''.'' \<or> c = CHR ''-'')"

definition strip :: "string \<Rightarrow> string" where
  "strip s = filter kept s"

text \<open>
  The value of a digit is its place in the row of digits; \<open>digitVal\<close> is applied
  to digits only.
\<close>

definition digitVal :: "char \<Rightarrow> nat" where
  "digitVal c = length (takeWhile (\<lambda>d. d \<noteq> c) ''0123456789'')"

fun digitsVal :: "nat \<Rightarrow> string \<Rightarrow> nat" where
  "digitsVal n [] = n"
| "digitsVal n (c # cs) = digitsVal (10 * n + digitVal c) cs"

text \<open>
  \<open>parseFloat\<close> on a text that has been through \<open>strip\<close>: it reads the longest prefix
  of the form sign, digits, dot, digits, with at least one digit, and ignores the rest;
  with no such prefix the result is \<open>NaN\<close>. A value beyond the range is \<open>Infinity\<close> or
  \<open>-Infinity\<close>: a text of 400 digits parses to \<open>Infinity\<close>. Leading blanks, exponents
  and the word \<open>Infinity\<close> cannot survive \<open>strip\<close> and are not modelled.
\<close>

definition parseUnsigned :: "string \<Rightarrow> real option" where
  "parseUnsigned s =
     (let ip = takeWhile isDigit s;
          rest = dropWhile isDigit s;
          fp = (case rest of [] \<Rightarrow> []
                | c # r \<Rightarrow> if c = CHR ''.'' then takeWhile isDigit r else [])
      in if ip = [] \<and> fp = [] then None
         else Some (real (digitsVal 0 ip) + real (digitsVal 0 fp) / 10 ^ length fp))"

definition parseFloat :: "string \<Rightarrow> jsnum" where
  "parseFloat s =
     (case s of [] \<Rightarrow> NaN
      | c # r \<Rightarrow>
          if c = CHR ''-''
          then (case parseUnsigned r of None \<Rightarrow> NaN | Some v \<Rightarrow> ranged (- v))
          else (case parseUnsigned s of None \<Rightarrow> NaN | Some v \<Rightarrow> ranged v))"

text \<open>\<open>Number.isNaN(n) ? 0 : n\<close>: only \<open>NaN\<close> is replaced, an infinite value is kept.\<close>

definition toNumber :: "string \<Rightarrow> jsnum" where
  "toNumber v = (let n = parseFloat (strip v) in if n = NaN then Fin 0 else n)"

definition clampPct :: "jsnum \<Rightarrow> jsnum" where
  "clampPct n = Math_min (Fin 100) (Math_max (Fin 0) n)"

subsection \<open>The derived values\<close>

text \<open>The body of the \<open>useMemo\<close> closure, statement by statement.\<close>

definition compute :: "config \<Rightarrow> ae_inputs \<Rightarrow> breakdown" where
  "compute cfg inp =
     (let quotaArr = Math_max (Fin 0) (toNumber (quotaARR cfg));
          baseAt100 = Math_max (Fin 0) (toNumber (basePayoutAt100 cfg));
          arr = Math_max (Fin 0) (toNumber (arrSold inp));
          attainment = (if quotaArr > Fin 0 then arr / quotaArr else Fin 0);
          basePayout = Math_min (Fin 1) attainment * baseAt100;
          deals = Math_max (Fin 0) (Math_floor (toNumber (totalDeals inp)));
          bundles = Math_max (Fin 0) (Math_floor (toNumber (bundleCount inp)));
          bundlePct = (if deals > Fin 0 then bundles / deals else Fin 0);
          bundleBonus =
            (if bundlePct \<ge> Fin 0.35 then toNumber (bundle35Bonus cfg)
             else if bundlePct \<ge> Fin 0.20 then toNumber (bundle20Bonus cfg)
             else Fin 0);
          overARR = Math_max (Fin 0) (arr - quotaArr);
          accelerator = (overARR / Fin 12) * Fin 1.25;
          accelerator =
            (if useOverQuotaBundleShare inp
             then let share = clampPct (toNumber (overQuotaBundleSharePct inp)) / Fin 100
                  in accelerator + (overARR / Fin 12) * share * Fin 0.25
             else accelerator);
          kicker = toNumber (prepaidKicker inp);
          cb = toNumber (clawbacks inp);
          total = basePayout + bundleBonus + accelerator + kicker - cb
      in \<lparr>arr = arr, quotaArr = quotaArr, attainment = attainment,
           basePayout = basePayout, bundlePct = bundlePct, bundleBonus = bundleBonus,
           overARR = overARR, accelerator = accelerator, kicker = kicker,
           cb = cb, total = total\<rparr>)"

section \<open>Properties of the derived values\<close>

subsection \<open>Numbers: range, order and the special values\<close>

lemma overflow_bound_large: "1000 < overflow_bound"
  by (simp add: overflow_bound_def)

lemma ranged_not_NaN [simp]: "ranged x \<noteq> NaN"
  by (simp add: ranged_def)

lemma ranged_bounds [simp]: "ranged x \<le> PInf" "NInf \<le> ranged x"
  by (simp_all add: ranged_def)

lemma ranged_Fin:
  assumes "- overflow_bound < x" "x < overflow_bound"
  shows "ranged x = Fin x"
  using assms by (simp add: ranged_def)

lemma ranged_eq_FinD:
  assumes "ranged x = Fin y"
  shows "y = x \<and> - overflow_bound < x \<and> x < overflow_bound"
  using assms by (simp add: ranged_def split: if_splits)


lemma ranged_nonneg:
  assumes "0 \<le> x"
  shows "Fin 0 \<le> ranged x"
  using assms overflow_bound_large by (simp add: ranged_def)


lemma le_trans_js:
  assumes "x \<le> y" "y \<le> (z::jsnum)"
  shows "x \<le> z"
  using assms by (cases x; cases y; cases z) simp_all


lemma le_not_NaN:
  assumes "x \<le> (y::jsnum)"
  shows "x \<noteq> NaN" "y \<noteq> NaN"
  using assms by (cases x; cases y; simp)+

lemma nonneg_cases:
  assumes "Fin 0 \<le> x"
  obtains a where "x = Fin a" "0 \<le> a" | "x = PInf"
  using assms by (cases x) simp_all


lemma neg_not_NaN [simp]: "neg x = NaN \<longleftrightarrow> x = NaN"
  by (cases x) simp_all






lemma Math_max_zero_nonneg:
  assumes "x \<noteq> NaN"
  shows "Fin 0 \<le> Math_max (Fin 0) x"
  using assms by (cases x) (simp_all add: Math_max_def)



lemma Math_min_one_nonneg:
  assumes "Fin 0 \<le> x"
  shows "Fin 0 \<le> Math_min (Fin 1) x"
  using assms by (cases x) (simp_all add: Math_min_def)

lemma Math_floor_not_NaN [simp]: "Math_floor x = NaN \<longleftrightarrow> x = NaN"
  by (cases x) simp_all







subsection \<open>Parsing\<close>

lemma toNumber_not_NaN [simp]: "toNumber v \<noteq> NaN"
  by (simp add: toNumber_def Let_def)

lemma clamped_nonneg [simp]:
  "Fin 0 \<le> Math_max (Fin 0) (toNumber v)"
  "Fin 0 \<le> Math_max (Fin 0) (Math_floor (toNumber v))"
  by (simp_all add: Math_max_zero_nonneg)

lemma share_finite:
  obtains s where "clampPct (toNumber v) / Fin 100 = Fin s" "0 \<le> s" "s \<le> 1"
proof -
  have "Fin 0 \<le> Math_max (Fin 0) (toNumber v)"
    by simp
  then have "\<exists>t. clampPct (toNumber v) = Fin t \<and> 0 \<le> t \<and> t \<le> 100"
    unfolding clampPct_def
    by (cases rule: nonneg_cases) (simp_all add: Math_min_def)
  then obtain t where t: "clampPct (toNumber v) = Fin t" "0 \<le> t" "t \<le> 100"
    by blast
  have "- overflow_bound < t / 100" "t / 100 < overflow_bound"
    using t(2,3) overflow_bound_large by simp_all
  then have "clampPct (toNumber v) / Fin 100 = Fin (t / 100)"
    using t(1) by (simp add: ranged_Fin)
  with t(2,3) show thesis
    by (intro that[of "t / 100"]) simp_all
qed

text \<open>The concrete texts used below.\<close>

lemma toNumber_vals:
  "toNumber ''0'' = Fin 0" "toNumber ''7'' = Fin 7" "toNumber ''22'' = Fin 22"
  "toNumber ''30'' = Fin 30" "toNumber ''40'' = Fin 40" "toNumber ''100'' = Fin 100"
  "toNumber ''150'' = Fin 150" "toNumber ''200'' = Fin 200" "toNumber ''500'' = Fin 500"
  "toNumber ''1000'' = Fin 1000" "toNumber ''5833'' = Fin 5833"
  "toNumber ''36000'' = Fin 36000" "toNumber ''50000'' = Fin 50000"
  "toNumber ''72000'' = Fin 72000" "toNumber ''93600'' = Fin 93600"
  "toNumber ''-50'' = Fin (- 50)" "toNumber ''-100'' = Fin (- 100)"
  "toNumber ''-500'' = Fin (- 500)"
  by (simp_all add: toNumber_def strip_def kept_def isDigit_def parseFloat_def
        parseUnsigned_def digitVal_def ranged_def overflow_bound_def)

text \<open>A text of \<open>n\<close> nines is \<open>10 ^ n - 1\<close>; four hundred of them overflow.\<close>

lemma digitsVal_nines:
  "digitsVal a (replicate n (CHR ''9'')) = a * 10 ^ n + (10 ^ n - 1)"
proof (induction n arbitrary: a)
  case 0
  show ?case by simp
next
  case (Suc n)
  have "(1::nat) \<le> 10 ^ n" by simp
  then show ?case
    by (simp add: Suc digitVal_def algebra_simps)
qed

lemma toNumber_nines:
  assumes "0 < n"
  shows "toNumber (replicate n (CHR ''9'')) = ranged (10 ^ n - 1)"
proof -
  obtain m where n: "n = Suc m"
    using assms by (cases n) simp_all
  have d: "isDigit (CHR ''9'')" "kept (CHR ''9'')"
    by (simp_all add: kept_def isDigit_def)
  have s: "strip (replicate n (CHR ''9'')) = replicate n (CHR ''9'')"
    by (simp add: strip_def d)
  have tw: "takeWhile isDigit (replicate n (CHR ''9'')) = replicate n (CHR ''9'')"
    "dropWhile isDigit (replicate n (CHR ''9'')) = []"
    by (simp_all add: d)
  have "(1::nat) \<le> 10 ^ n" by simp
  then have v: "real (digitsVal 0 (replicate n (CHR ''9''))) = 10 ^ n - 1"
    by (simp add: digitsVal_nines of_nat_diff)
  have pu: "parseUnsigned (replicate n (CHR ''9'')) = Some (10 ^ n - 1)"
    unfolding parseUnsigned_def tw Let_def using v n by simp
  have pf: "parseFloat (replicate n (CHR ''9'')) = ranged (10 ^ n - 1)"
    unfolding parseFloat_def using pu n by simp
  show ?thesis
    unfolding toNumber_def s pf Let_def by simp
qed

lemma toNumber_overflow: "toNumber (replicate 400 (CHR ''9'')) = PInf"
  using toNumber_nines[of 400] by (simp add: ranged_def overflow_bound_def)

subsection \<open>The fields of the breakdown\<close>

lemma compute_fields:
  fixes c i
  defines "b \<equiv> compute c i"
  shows
    "arr b = Math_max (Fin 0) (toNumber (arrSold i))"
    "quotaArr b = Math_max (Fin 0) (toNumber (quotaARR c))"
    "attainment b = (if Fin 0 < quotaArr b then arr b / quotaArr b else Fin 0)"
    "basePayout b =
       Math_min (Fin 1) (attainment b) * Math_max (Fin 0) (toNumber (basePayoutAt100 c))"
    "bundlePct b =
       (if Fin 0 < Math_max (Fin 0) (Math_floor (toNumber (totalDeals i)))
        then Math_max (Fin 0) (Math_floor (toNumber (bundleCount i))) /
             Math_max (Fin 0) (Math_floor (toNumber (totalDeals i)))
        else Fin 0)"
    "bundleBonus b =
       (if Fin 0.35 \<le> bundlePct b then toNumber (bundle35Bonus c)
        else if Fin 0.20 \<le> bundlePct b then toNumber (bundle20Bonus c) else Fin 0)"
    "overARR b = Math_max (Fin 0) (arr b - quotaArr b)"
    "accelerator b =
       (if useOverQuotaBundleShare i
        then (overARR b / Fin 12) * Fin 1.25 +
             (overARR b / Fin 12) * (clampPct (toNumber (overQuotaBundleSharePct i)) / Fin 100)
               * Fin 0.25
        else (overARR b / Fin 12) * Fin 1.25)"
    "kicker b = toNumber (prepaidKicker i)"
    "cb b = toNumber (clawbacks i)"
    "total b = basePayout b + bundleBonus b + accelerator b + kicker b - cb b"
  unfolding b_def compute_def Let_def by simp_all

lemma compute_record_eq:
  "compute c i =
     \<lparr>arr = a, quotaArr = q, attainment = t, basePayout = bp, bundlePct = p,
      bundleBonus = bb, overARR = ov, accelerator = ac, kicker = k, cb = cl, total = tt\<rparr>
   \<longleftrightarrow>
   arr (compute c i) = a \<and> quotaArr (compute c i) = q \<and> attainment (compute c i) = t \<and>
   basePayout (compute c i) = bp \<and> bundlePct (compute c i) = p \<and>
   bundleBonus (compute c i) = bb \<and> overARR (compute c i) = ov \<and>
   accelerator (compute c i) = ac \<and> kicker (compute c i) = k \<and> cb (compute c i) = cl \<and>
   total (compute c i) = tt"
  by (cases "compute c i") auto

text \<open>What a concrete run unfolds: the fields one by one, then the arithmetic.\<close>

lemmas run_defs =
  compute_record_eq compute_fields initial_config_def initial_inputs_def toNumber_vals
  toNumber_overflow ranged_def overflow_bound_def signed_inf_def minus_jsnum_def
  Math_max_def Math_min_def clampPct_def

lemma arr_nonneg [simp]: "Fin 0 \<le> arr (compute c i)"
  and quotaArr_nonneg [simp]: "Fin 0 \<le> quotaArr (compute c i)"
  by (simp_all add: compute_fields)


subsection \<open>Auxiliary facts about the formulas\<close>

lemma ranged_not_negative:
  assumes "0 \<le> x"
  shows "\<not> ranged x < Fin 0"
  using assms overflow_bound_large by (simp add: ranged_def)

lemma ranged_negative:
  assumes "x < 0"
  shows "\<not> Fin 0 \<le> ranged x"
  using assms overflow_bound_large by (simp add: ranged_def)




lemma ratio_not_negative:
  assumes "Fin 0 \<le> a" "Fin 0 < q"
  shows "\<not> a / q < Fin 0"
proof (cases a; cases q)
  fix x r assume "a = Fin x" "q = Fin r"
  with assms show ?thesis
    by (simp add: ranged_not_negative)
qed (use assms in \<open>simp_all add: signed_inf_def\<close>)

lemma product_not_negative:
  assumes "\<not> x < Fin 0" "Fin 0 \<le> m"
  shows "\<not> x * m < Fin 0"
proof (cases x; cases m)
  fix a r assume "x = Fin a" "m = Fin r"
  with assms show ?thesis
    by (simp add: ranged_not_negative)
qed (use assms in \<open>auto simp: signed_inf_def sgn_if\<close>)




lemma ratio_above:
  assumes "Fin 0 < d" "d < n"
  shows "Fin 1 < n / d"
proof -
  from assms obtain r where r: "d = Fin r" "0 < r"
    by (cases d; cases n) simp_all
  show ?thesis
  proof (cases n)
    case (Fin x)
    with r assms(2) have "1 < x / r" by simp
    moreover from this have "- overflow_bound < x / r"
      using overflow_bound_large by linarith
    ultimately show ?thesis
      using Fin r by (simp add: ranged_def)
  next
    case PInf
    with r show ?thesis by (simp add: signed_inf_def)
  qed (use assms r in simp_all)
qed

lemma above_one_tier:
  assumes "Fin 1 < x"
  shows "Fin 0.35 \<le> x"
  using assms by (cases x) simp_all

lemma below_quota_nothing_over:
  assumes "Fin 0 \<le> a" "a < q"
  shows "Math_max (Fin 0) (a - q) = Fin 0"
proof -
  from assms obtain x where x: "a = Fin x" "0 \<le> x"
    by (cases a; cases q) simp_all
  show ?thesis
  proof (cases q)
    case (Fin r)
    with x assms(2) have "x - r < 0" by simp
    then have "\<not> Fin 0 \<le> ranged (x - r)"
      by (rule ranged_negative)
    then show ?thesis
      using x Fin by (simp add: minus_jsnum_def Math_max_def)
  qed (use assms x in \<open>simp_all add: minus_jsnum_def Math_max_def\<close>)
qed

lemma accelerator_of_nothing:
  "(Fin 0 / Fin 12) * Fin 1.25 = Fin 0"
  "(Fin 0 / Fin 12) * (clampPct (toNumber v) / Fin 100) * Fin 0.25 = Fin 0"
  "Fin 0 + Fin 0 = Fin 0"
proof -
  have z: "ranged 0 = Fin 0"
    using overflow_bound_large by (simp add: ranged_def)
  show "(Fin 0 / Fin 12) * Fin 1.25 = Fin 0" and "Fin 0 + Fin 0 = Fin 0"
    by (simp_all add: z)
  obtain s where "clampPct (toNumber v) / Fin 100 = Fin s"
    by (rule share_finite)
  then show "(Fin 0 / Fin 12) * (clampPct (toNumber v) / Fin 100) * Fin 0.25 = Fin 0"
    by (simp add: z)
qed












subsection \<open>The total\<close>

text \<open>
  C1. For every configuration and sales input the breakdown's \<open>total\<close> is
  \<open>basePayout + bundleBonus + accelerator + kicker - clawbacks\<close>, with \<open>kicker\<close> and
  \<open>clawbacks\<close> the fields of that same breakdown.
\<close>

theorem total_invariant:
  fixes c i
  defines "b \<equiv> compute c i"
  shows "total b = basePayout b + bundleBonus b + accelerator b + kicker b - cb b"
  unfolding b_def by (rule compute_fields(11))

subsection \<open>Base payout\<close>




subsection \<open>Kicker and clawbacks\<close>




subsection \<open>Normalization\<close>

text \<open>
  C4, as amended. The quota, the base payout at 100 percent, the ARR sold and the two
  deal counts are clamped at \<open>0\<close> before use: the breakdown carries the clamped quota and
  ARR, its base payout and bundle rate are computed from the clamped base and the
  clamped, floored counts, and all five are non-negative for every raw input. The
  attainment, the base payout and the bundle rate computed from them are never negative.
\<close>

theorem normalized_nonneg:
  fixes c i
  defines "b \<equiv> compute c i"
  shows "quotaArr b = Math_max (Fin 0) (toNumber (quotaARR c)) \<and> Fin 0 \<le> quotaArr b \<and>
     arr b = Math_max (Fin 0) (toNumber (arrSold i)) \<and> Fin 0 \<le> arr b \<and>
     basePayout b =
       Math_min (Fin 1) (attainment b) * Math_max (Fin 0) (toNumber (basePayoutAt100 c)) \<and>
     Fin 0 \<le> Math_max (Fin 0) (toNumber (basePayoutAt100 c)) \<and>
     bundlePct b =
       (if Fin 0 < Math_max (Fin 0) (Math_floor (toNumber (totalDeals i)))
        then Math_max (Fin 0) (Math_floor (toNumber (bundleCount i))) /
             Math_max (Fin 0) (Math_floor (toNumber (totalDeals i)))
        else Fin 0) \<and>
     Fin 0 \<le> Math_max (Fin 0) (Math_floor (toNumber (totalDeals i))) \<and>
     Fin 0 \<le> Math_max (Fin 0) (Math_floor (toNumber (bundleCount i))) \<and>
     \<not> attainment b < Fin 0 \<and> \<not> basePayout b < Fin 0 \<and> \<not> bundlePct b < Fin 0"
proof -
  note f = compute_fields[of c i]
  have att: "\<not> attainment (compute c i) < Fin 0"
    unfolding f(3) by (simp add: ratio_not_negative)
  have "\<not> Math_min (Fin 1) (attainment (compute c i)) < Fin 0"
    using att by (cases "attainment (compute c i)") (simp_all add: Math_min_def)
  then have bp: "\<not> basePayout (compute c i) < Fin 0"
    unfolding f(4) by (rule product_not_negative) simp
  have pct: "\<not> bundlePct (compute c i) < Fin 0"
    unfolding f(5) by (simp add: ratio_not_negative)
  show ?thesis
    unfolding b_def using f(1,2,4,5) att bp pct by simp
qed

text \<open>
  C4 as stated fails for the bundle bonuses, which are parsed and not clamped: with the
  20 percent bonus set to \<open>-500\<close> the initial state, at a bundle rate of 7 in 22, gets
  a bundle bonus of \<open>-500\<close>.
\<close>

theorem bundle_bonus_negative_counterexample:
  "compute (initial_config\<lparr>bundle20Bonus := ''-500''\<rparr>) initial_inputs =
     \<lparr>arr = Fin 93600, quotaArr = Fin 72000, attainment = Fin (13 / 10),
      basePayout = Fin 5833, bundlePct = Fin (7 / 22), bundleBonus = Fin (- 500),
      overARR = Fin 21600, accelerator = Fin 2250, kicker = Fin 100, cb = Fin 0,
      total = Fin 7683\<rparr> \<and>
   toNumber (bundle20Bonus (initial_config\<lparr>bundle20Bonus := ''-500''\<rparr>)) < Fin 0 \<and>
   bundleBonus (compute (initial_config\<lparr>bundle20Bonus := ''-500''\<rparr>) initial_inputs) < Fin 0"
  by (simp add: run_defs)

subsection \<open>Guarded divisions\<close>



text \<open>
  C5 as stated fails. With the quota and the ARR sold both a text of 400 nines, the
  guard \<open>quotaArr > 0\<close> passes and the attainment is \<open>Infinity / Infinity\<close>, which is
  \<open>NaN\<close>. With a quota of \<open>0\<close> and a base payout at 100 percent of 400 nines, the
  base payout is \<open>0 * Infinity\<close>, which is \<open>NaN\<close> and not \<open>0\<close>.
\<close>

theorem undefined_ratio_counterexample:
  "attainment (compute (initial_config\<lparr>quotaARR := replicate 400 (CHR ''9'')\<rparr>)
      (initial_inputs\<lparr>arrSold := replicate 400 (CHR ''9'')\<rparr>)) = NaN \<and>
   quotaArr (compute (initial_config\<lparr>quotaARR := ''0'', basePayoutAt100 := replicate 400 (CHR ''9'')\<rparr>)
      initial_inputs) = Fin 0 \<and>
   basePayout (compute (initial_config\<lparr>quotaARR := ''0'', basePayoutAt100 := replicate 400 (CHR ''9'')\<rparr>)
      initial_inputs) = NaN \<and>
   basePayout (compute (initial_config\<lparr>quotaARR := ''0'', basePayoutAt100 := replicate 400 (CHR ''9'')\<rparr>)
      initial_inputs) \<noteq> Fin 0"
  by (simp add: run_defs)

subsection \<open>Bundle bonus\<close>

text \<open>
  C6. The bundle bonus is the 35 percent bonus when the bundle rate is at least 0.35,
  otherwise the 20 percent bonus when the rate is at least 0.20, otherwise \<open>0\<close>: one
  tier at most, never a sum. More bundles than deals give a rate above \<open>1\<close>, and a rate
  above \<open>1\<close> pays the 35 percent bonus.
\<close>

theorem bundleBonus_tiered:
  fixes c i
  defines "b \<equiv> compute c i"
    and "deals \<equiv> Math_max (Fin 0) (Math_floor (toNumber (totalDeals i)))"
    and "bundles \<equiv> Math_max (Fin 0) (Math_floor (toNumber (bundleCount i)))"
  shows "bundleBonus b =
           (if bundlePct b \<ge> Fin 0.35 then toNumber (bundle35Bonus c)
            else if bundlePct b \<ge> Fin 0.20 then toNumber (bundle20Bonus c) else Fin 0) \<and>
         (Fin 0 < deals \<and> deals < bundles \<longrightarrow> Fin 1 < bundlePct b) \<and>
         (Fin 1 < bundlePct b \<longrightarrow> bundleBonus b = toNumber (bundle35Bonus c))"
proof (intro conjI impI)
  show "bundleBonus b =
           (if bundlePct b \<ge> Fin 0.35 then toNumber (bundle35Bonus c)
            else if bundlePct b \<ge> Fin 0.20 then toNumber (bundle20Bonus c) else Fin 0)"
    unfolding b_def by (rule compute_fields(6))
next
  assume "Fin 0 < deals \<and> deals < bundles"
  then show "Fin 1 < bundlePct b"
    unfolding b_def deals_def bundles_def
    by (simp add: compute_fields(5) ratio_above)
next
  assume "Fin 1 < bundlePct b"
  then have "Fin 0.35 \<le> bundlePct (compute c i)"
    unfolding b_def by (rule above_one_tier)
  then show "bundleBonus b = toNumber (bundle35Bonus c)"
    unfolding b_def compute_fields(6)[of c i] by (simp only: if_True)
qed

text \<open>Thirty bundles on twenty-two deals.\<close>

theorem bundleBonus_tiered_witness:
  "Fin 0 < Math_max (Fin 0) (Math_floor (toNumber ''22'')) \<and>
   Math_max (Fin 0) (Math_floor (toNumber ''22''))
     < Math_max (Fin 0) (Math_floor (toNumber ''30'')) \<and>
   Fin 1 < bundlePct (compute initial_config (initial_inputs\<lparr>bundleCount := ''30''\<rparr>)) \<and>
   bundleBonus (compute initial_config (initial_inputs\<lparr>bundleCount := ''30''\<rparr>)) = Fin 1000"
  using bundleBonus_tiered[of initial_config "initial_inputs\<lparr>bundleCount := ''30''\<rparr>"]
  by (simp add: run_defs)

subsection \<open>Accelerator\<close>

text \<open>
  C7. With \<open>useOverQuotaBundleShare\<close> off, the accelerator is \<open>(overARR / 12) * 1.25\<close>,
  and replacing \<open>overQuotaBundleSharePct\<close> by any other value leaves the whole result
  unchanged.
\<close>

theorem toggle_off_independent:
  assumes "\<not> useOverQuotaBundleShare i"
  shows "compute c (i\<lparr>overQuotaBundleSharePct := p\<rparr>) = compute c i \<and>
         accelerator (compute c i) = (overARR (compute c i) / Fin 12) * Fin 1.25"
proof
  show "compute c (i\<lparr>overQuotaBundleSharePct := p\<rparr>) = compute c i"
    using assms by (simp add: compute_def)
  show "accelerator (compute c i) = (overARR (compute c i) / Fin 12) * Fin 1.25"
    using assms by (simp only: compute_fields(8) if_False)
qed

theorem toggle_off_independent_witness:
  "\<not> useOverQuotaBundleShare initial_inputs \<and>
   compute initial_config (initial_inputs\<lparr>overQuotaBundleSharePct := ''40''\<rparr>)
     = compute initial_config initial_inputs \<and>
   accelerator (compute initial_config initial_inputs)
     = (overARR (compute initial_config initial_inputs) / Fin 12) * Fin 1.25 \<and>
   accelerator (compute initial_config initial_inputs) = Fin 2250"
  using toggle_off_independent[of initial_inputs initial_config "''40''"]
  by (simp add: run_defs)

text \<open>
  C8. \<open>overARR\<close> is \<open>max 0 (arr - quotaArr)\<close> on the normalized values; below quota the
  accelerator is \<open>0\<close>; with \<open>useOverQuotaBundleShare\<close> on, the accelerator is
  \<open>(overARR / 12) * 1.25 + (overARR / 12) * (clamp pct 0 100 / 100) * 0.25\<close>.
\<close>

theorem overARR_accelerator:
  fixes c i
  defines "b \<equiv> compute c i"
  shows "overARR b = Math_max (Fin 0) (arr b - quotaArr b) \<and>
     (arr b < quotaArr b \<longrightarrow> accelerator b = Fin 0) \<and>
     (useOverQuotaBundleShare i \<longrightarrow>
        accelerator b =
          (overARR b / Fin 12) * Fin 1.25 +
          (overARR b / Fin 12) *
            (Math_min (Fin 100) (Math_max (Fin 0) (toNumber (overQuotaBundleSharePct i)))
               / Fin 100) * Fin 0.25)"
proof (intro conjI impI)
  show "overARR b = Math_max (Fin 0) (arr b - quotaArr b)"
    unfolding b_def by (rule compute_fields(7))
next
  assume "arr b < quotaArr b"
  then have o: "overARR (compute c i) = Fin 0"
    unfolding b_def by (simp add: compute_fields(7) below_quota_nothing_over)
  show "accelerator b = Fin 0"
    unfolding b_def compute_fields(8)[of c i] o
    by (simp only: accelerator_of_nothing if_cancel)
next
  assume "useOverQuotaBundleShare i"
  then show "accelerator b =
          (overARR b / Fin 12) * Fin 1.25 +
          (overARR b / Fin 12) *
            (Math_min (Fin 100) (Math_max (Fin 0) (toNumber (overQuotaBundleSharePct i)))
               / Fin 100) * Fin 0.25"
    unfolding b_def by (simp add: compute_fields(8) clampPct_def)
qed

text \<open>
  Below quota with the toggle on, and the initial state with the toggle on and a share
  of 150 percent, which is clamped to 100.
\<close>

theorem overARR_accelerator_witness:
  "arr (compute initial_config
          (initial_inputs\<lparr>arrSold := ''50000'', useOverQuotaBundleShare := True,
             overQuotaBundleSharePct := ''40''\<rparr>))
     < quotaArr (compute initial_config
          (initial_inputs\<lparr>arrSold := ''50000'', useOverQuotaBundleShare := True,
             overQuotaBundleSharePct := ''40''\<rparr>)) \<and>
   accelerator (compute initial_config
          (initial_inputs\<lparr>arrSold := ''50000'', useOverQuotaBundleShare := True,
             overQuotaBundleSharePct := ''40''\<rparr>)) = Fin 0 \<and>
   useOverQuotaBundleShare
     (initial_inputs\<lparr>useOverQuotaBundleShare := True, overQuotaBundleSharePct := ''150''\<rparr>) \<and>
   overARR (compute initial_config
          (initial_inputs\<lparr>useOverQuotaBundleShare := True,
             overQuotaBundleSharePct := ''150''\<rparr>)) = Fin 21600 \<and>
   accelerator (compute initial_config
          (initial_inputs\<lparr>useOverQuotaBundleShare := True,
             overQuotaBundleSharePct := ''150''\<rparr>)) = Fin 2700"
  using overARR_accelerator[of initial_config
      "initial_inputs\<lparr>arrSold := ''50000'', useOverQuotaBundleShare := True,
         overQuotaBundleSharePct := ''40''\<rparr>"]
    overARR_accelerator[of initial_config
      "initial_inputs\<lparr>useOverQuotaBundleShare := True, overQuotaBundleSharePct := ''150''\<rparr>"]
  by (simp add: run_defs)

subsection \<open>The reference sheet\<close>

text \<open>
  C9. On quota 72000, base 5833, bonuses 500 and 1000, ARR sold 93600, 22 deals, 7
  bundles, kicker 100, clawbacks 0 and the toggle off, the breakdown is: attainment 1.3,
  base payout 5833, bundle rate 7/22 with bonus 500, over-quota ARR 21600, accelerator
  2250, total 8683.
\<close>

theorem reference_sheet_example:
  "compute
     \<lparr>quotaARR = ''72000'', basePayoutAt100 = ''5833'',
      bundle20Bonus = ''500'', bundle35Bonus = ''1000''\<rparr>
     \<lparr>arrSold = ''93600'', totalDeals = ''22'', bundleCount = ''7'',
      prepaidKicker = ''100'', clawbacks = ''0'',
      useOverQuotaBundleShare = False, overQuotaBundleSharePct = p\<rparr>
   = \<lparr>arr = Fin 93600, quotaArr = Fin 72000, attainment = Fin 1.3,
      basePayout = Fin 5833, bundlePct = Fin (7 / 22), bundleBonus = Fin 500,
      overARR = Fin 21600, accelerator = Fin 2250, kicker = Fin 100, cb = Fin 0,
      total = Fin 8683\<rparr>"
  by (simp add: run_defs)

subsection \<open>Monotonicity in the ARR sold\<close>



text \<open>
  C10 as stated fails. With a quota of 400 nines, an ARR sold of \<open>0\<close> gives the total
  600, and an ARR sold of 400 nines gives the attainment \<open>Infinity / Infinity\<close> and
  the total \<open>NaN\<close>, which no number is below.
\<close>

theorem total_mono_counterexample:
  "toNumber ''0'' \<le> toNumber (replicate 400 (CHR ''9'')) \<and>
   total (compute (initial_config\<lparr>quotaARR := replicate 400 (CHR ''9'')\<rparr>)
      (initial_inputs\<lparr>arrSold := ''0''\<rparr>)) = Fin 600 \<and>
   total (compute (initial_config\<lparr>quotaARR := replicate 400 (CHR ''9'')\<rparr>)
      (initial_inputs\<lparr>arrSold := replicate 400 (CHR ''9'')\<rparr>)) = NaN \<and>
   \<not> total (compute (initial_config\<lparr>quotaARR := replicate 400 (CHR ''9'')\<rparr>)
        (initial_inputs\<lparr>arrSold := ''0''\<rparr>))
     \<le> total (compute (initial_config\<lparr>quotaARR := replicate 400 (CHR ''9'')\<rparr>)
        (initial_inputs\<lparr>arrSold := replicate 400 (CHR ''9'')\<rparr>))"
  by (simp add: run_defs)

end
